theory Spec2Isabelle
  imports Main "HOL-Library.Sublist"
begin

section \<open>Python primitives used by streamlit_app.py\<close>

text \<open>
  Strings are \<open>char list\<close>. The three characters the program treats specially are
  named by their code points: the line feed, the dollar sign and the backslash of
  \<^verbatim>\<open>.replace("$", "\$")\<close>, and the single quote of \<^verbatim>\<open>.replace("'", "")\<close>.
\<close>

definition nl :: string where
  "nl = [CHR 0x0A]"

definition dollar :: char where
  "dollar = CHR 0x24"

definition backslash :: char where
  "backslash = CHR 0x5C"

definition quote :: char where
  "quote = CHR 0x27"

text \<open>
  \<^verbatim>\<open>sep.join(xs)\<close>: the elements of \<open>xs\<close> with \<open>sep\<close> between neighbours.
\<close>

fun join :: "string \<Rightarrow> string list \<Rightarrow> string" where
  "join sep [] = []"
| "join sep [x] = x"
| "join sep (x # y # ys) = x @ sep @ join sep (y # ys)"

text \<open>
  \<^verbatim>\<open>s.replace(old, new)\<close>: every non-overlapping occurrence of \<open>old\<close>, scanning
  from the left, is replaced by \<open>new\<close>. For an empty \<open>old\<close> Python puts \<open>new\<close>
  before every character and at the end.
\<close>

function str_replace :: "string \<Rightarrow> string \<Rightarrow> string \<Rightarrow> string" where
  "str_replace [] old new = (if old = [] then new else [])"
| "str_replace (c # cs) old new =
     (if old = [] then new @ c # str_replace cs old new
      else if prefix old (c # cs) then new @ str_replace (drop (length old) (c # cs)) old new
      else c # str_replace cs old new)"
  by pat_completeness auto
termination
  by (relation "measure (\<lambda>(s, old, new). length s)") auto

text \<open>
  A bound of a Python slice on a sequence of length \<open>len\<close>: a negative bound counts
  from the end, and every bound is clamped into \<open>[0, len]\<close>.
\<close>

definition slice_bound :: "nat \<Rightarrow> int \<Rightarrow> nat" where
  "slice_bound len i = (if i < 0 then nat (max (i + int len) 0) else min (nat i) len)"

text \<open>\<^verbatim>\<open>xs[i:j]\<close>; it is empty when the stop is not after the start.\<close>

definition py_slice :: "'a list \<Rightarrow> int \<Rightarrow> int \<Rightarrow> 'a list" where
  "py_slice xs i j =
     (let a = slice_bound (length xs) i; b = slice_bound (length xs) j
      in take (b - a) (drop a xs))"

text \<open>\<^verbatim>\<open>str(n)\<close> for a natural number: its decimal digits.\<close>

definition digit :: "nat \<Rightarrow> char" where
  "digit d = char_of (48 + d)"

fun str_nat :: "nat \<Rightarrow> string" where
  "str_nat n = (if n < 10 then [digit n] else str_nat (n div 10) @ [digit (n mod 10)])"

text \<open>
  \<^verbatim>\<open>s.lower()\<close>. A \<open>char\<close> stands for the code point of the same number, so the
  strings of the model are the Python strings over the code points below 256. Among these
  the capital letters are \<open>A\<close> to \<open>Z\<close>, \<open>0xC0\<close> to \<open>0xD6\<close> and \<open>0xD8\<close> to \<open>0xDE\<close>;
  each has its small letter 32 code points above, and \<^verbatim>\<open>lower\<close> leaves every other
  code point below 256 as it is.
\<close>

definition lower_char :: "char \<Rightarrow> char" where
  "lower_char c =
     (let n = (of_char c :: nat)
      in if (65 \<le> n \<and> n \<le> 90) \<or> (192 \<le> n \<and> n \<le> 214) \<or> (216 \<le> n \<and> n \<le> 222)
         then char_of (n + 32) else c)"

definition lower :: "string \<Rightarrow> string" where
  "lower s = map lower_char s"

text \<open>
  \<^verbatim>\<open>s.strip()\<close>: leading and trailing whitespace removed. The whitespace of
  \<^verbatim>\<open>str.isspace\<close> among the code points below 256: tab to carriage return, the four
  separators \<open>0x1C\<close> to \<open>0x1F\<close>, the space, \<open>0x85\<close> and \<open>0xA0\<close>.
\<close>

definition isspace :: "char \<Rightarrow> bool" where
  "isspace c =
     (let n = (of_char c :: nat)
      in (9 \<le> n \<and> n \<le> 13) \<or> (28 \<le> n \<and> n \<le> 32) \<or> n = 133 \<or> n = 160)"

definition strip :: "string \<Rightarrow> string" where
  "strip s = rev (dropWhile isspace (rev (dropWhile isspace s)))"

section \<open>Session state, widgets and the two backends\<close>

text \<open>
  A message is the dict \<^verbatim>\<open>{"role": ..., "content": ...}\<close>; a service descriptor
  is the dict \<^verbatim>\<open>{"name": ..., "search_column": ...}\<close>.
\<close>

record turn =
  role :: string
  content :: string

record service =
  name :: string
  search_column :: string

text \<open>
  \<^verbatim>\<open>st.session_state\<close>. The keys the program tests with \<^verbatim>\<open>in\<close> may be absent
  (\<open>None\<close>); the keys bound to widgets hold the widget's value of the current run.
\<close>

record session_state =
  pinned_messages :: "turn list option"
  messages :: "turn list option"
  service_metadata :: "service list option"
  uploaded_pdf :: "string option"
  dark_mode :: bool
  selected_cortex_search_service :: "string option"
  clear_conversation :: bool
  debug :: bool
  use_chat_history :: bool
  selected_topic :: string
  model_name :: string
  num_retrieved_chunks :: int
  num_chat_messages :: int

text \<open>The exceptions that can end a run.\<close>

datatype error =
  AttributeError string
  | StopIteration
  | KeyError string
  | IndexError
  | UpstreamServiceError string

text \<open>
  One call \<^verbatim>\<open>svc.search(query, columns=..., filter=..., limit=...)\<close> on the service
  \<^verbatim>\<open>cortex_search_services[selected_cortex_search_service]\<close> of the session's current
  database and schema. A filter is a dict, here an association list.
\<close>

record search_call =
  svc :: "string option"
  query :: string
  columns :: "string list"
  filter_clause :: "(string \<times> string) list"
  limit :: int

text \<open>
  The external collaborators, as functions of what the program sends them:
  \<^item> \<open>show_services\<close>: the names in the rows of \<^verbatim>\<open>SHOW CORTEX SEARCH SERVICES\<close>;
  \<^item> \<open>desc_service\<close>: the \<^verbatim>\<open>search_column\<close> of each row of
    \<^verbatim>\<open>DESC CORTEX SEARCH SERVICE name\<close>;
  \<^item> \<open>search\<close>: the \<^verbatim>\<open>.results\<close> of a search call, each record a dict from column
    names to text;
  \<^item> \<open>Complete\<close>: \<^verbatim>\<open>snowflake.cortex.Complete(model, prompt, session=session)\<close>.
  Each may raise instead of returning.
\<close>

record backend =
  show_services :: "error + string list"
  desc_service :: "string \<Rightarrow> error + string list"
  search :: "search_call \<Rightarrow> error + (string \<rightharpoonup> string) list"
  Complete :: "string \<Rightarrow> string \<Rightarrow> error + string"

text \<open>What a run does that is visible outside \<^verbatim>\<open>st.session_state\<close>.\<close>

datatype effect =
  Searched search_call
  | Completed string string
  | SidebarTextArea string

section \<open>The functions of streamlit_app.py\<close>

type_synonym 'a action = "effect list \<times> (error + 'a)"

text \<open>
  A call returns the effects it had and either its value or the exception that ended it.
  \<open>and_then\<close> sequences two calls: the second runs only if the first returned.
\<close>

definition ret :: "'a \<Rightarrow> 'a action" where
  "ret x = ([], Inr x)"

definition and_then :: "'a action \<Rightarrow> ('a \<Rightarrow> 'b action) \<Rightarrow> 'b action" where
  "and_then m f =
     (case m of
        (log, Inl e) \<Rightarrow> (log, Inl e)
      | (log, Inr x) \<Rightarrow> (case f x of (log', r) \<Rightarrow> (log @ log', r)))"

text \<open>
  \<^verbatim>\<open>def complete(model, prompt):
    return Complete(model, prompt, session=session).replace("$", "\$")\<close>
  In Python source \<^verbatim>\<open>"\$"\<close> is the two characters backslash and dollar.
\<close>

definition complete :: "backend \<Rightarrow> string \<Rightarrow> string \<Rightarrow> string action" where
  "complete B model prompt =
     ([Completed model prompt],
      case Complete B model prompt of
        Inl e \<Rightarrow> Inl e
      | Inr text \<Rightarrow> Inr (str_replace text [dollar] [backslash, dollar]))"

text \<open>
  \<^verbatim>\<open>def init_messages():
    if "pinned_messages" not in st.session_state:
        st.session_state.pinned_messages = []
    if st.session_state.get("clear_conversation") or "messages" not in st.session_state:
        st.session_state.messages = []\<close>
\<close>

definition init_messages :: "session_state \<Rightarrow> session_state" where
  "init_messages s =
     (let s1 = (if pinned_messages s = None then s\<lparr>pinned_messages := Some []\<rparr> else s)
      in if clear_conversation s1 \<or> messages s1 = None then s1\<lparr>messages := Some []\<rparr> else s1)"

text \<open>
  \<^verbatim>\<open>def init_service_metadata():
    if "service_metadata" not in st.session_state:
        services = session.sql("SHOW CORTEX SEARCH SERVICES;").collect()
        metadata = []
        for s in services:
            svc_name = s["name"]
            search_col = session.sql(f"DESC CORTEX SEARCH SERVICE {svc_name};").collect()[0]["search_column"]
            metadata.append({"name": svc_name, "search_column": search_col})
        st.session_state.service_metadata = metadata\<close>
  The loop, with \<open>metadata\<close> as its accumulator; \<^verbatim>\<open>.collect()[0]\<close> raises on an
  empty result.
\<close>

fun describe_services :: "backend \<Rightarrow> service list \<Rightarrow> string list \<Rightarrow> error + service list" where
  "describe_services B metadata [] = Inr metadata"
| "describe_services B metadata (svc_name # services) =
     (case desc_service B svc_name of
        Inl e \<Rightarrow> Inl e
      | Inr [] \<Rightarrow> Inl IndexError
      | Inr (search_col # rows) \<Rightarrow>
          describe_services B
            (metadata @ [\<lparr>name = svc_name, search_column = search_col\<rparr>]) services)"

definition init_service_metadata :: "backend \<Rightarrow> session_state \<Rightarrow> error + session_state" where
  "init_service_metadata B s =
     (if service_metadata s = None then
        (case show_services B of
           Inl e \<Rightarrow> Inl e
         | Inr services \<Rightarrow>
             (case describe_services B [] services of
                Inl e \<Rightarrow> Inl e
              | Inr metadata \<Rightarrow> Inr (s\<lparr>service_metadata := Some metadata\<rparr>)))
      else Inr s)"

text \<open>
  \<^verbatim>\<open>def get_chat_history():
    return st.session_state.messages[-st.session_state.num_chat_messages:-1]\<close>
\<close>

definition get_chat_history :: "session_state \<Rightarrow> error + turn list" where
  "get_chat_history s =
     (case messages s of
        None \<Rightarrow> Inl (AttributeError ''messages'')
      | Some ms \<Rightarrow> Inr (py_slice ms (- num_chat_messages s) (- 1)))"

text \<open>
  \<^verbatim>\<open>def summarize_chat(chat_history, question):
    prompt = f"""
    [INST]
    Extend the user question using the chat history.
    <chat_history>{chat_history}</chat_history>
    <question>{question}</question>
    [/INST]
    """
    return complete(st.session_state.model_name, prompt)\<close>
\<close>

definition summarize_prompt :: "string \<Rightarrow> string \<Rightarrow> string" where
  "summarize_prompt chat_history question =
     nl @ ''    [INST]'' @ nl @
     ''    Extend the user question using the chat history.'' @ nl @
     ''    <chat_history>'' @ chat_history @ ''</chat_history>'' @ nl @
     ''    <question>'' @ question @ ''</question>'' @ nl @
     ''    [/INST]'' @ nl @
     ''    ''"

definition summarize_chat :: "backend \<Rightarrow> session_state \<Rightarrow> string \<Rightarrow> string \<Rightarrow> string action" where
  "summarize_chat B s chat_history question =
     complete B (model_name s) (summarize_prompt chat_history question)"

text \<open>
  \<^verbatim>\<open>def query_cortex(query, columns=[], filter={}):
    db, schema = session.get_current_database(), session.get_current_schema()
    svc = root.databases[db].schemas[schema].cortex_search_services[st.session_state.selected_cortex_search_service]
    results = svc.search(query, columns=columns, filter=filter, limit=st.session_state.num_retrieved_chunks).results
    search_col = next(s["search_column"] for s in st.session_state.service_metadata if s["name"] == st.session_state.selected_cortex_search_service).lower()
    context = "\n\n".join([f"Context {i+1}: {r[search_col]}" for i, r in enumerate(results)])
    if st.session_state.debug:
        st.sidebar.text_area("Context Documents", context, height=300)
    return context\<close>
  \<open>find_search_column\<close> is the \<^verbatim>\<open>next(...)\<close> over the generator: the first descriptor
  with the selected name, \<^verbatim>\<open>StopIteration\<close> when there is none.
  \<open>context_blocks\<close> is the list comprehension: \<^verbatim>\<open>r[search_col]\<close> raises
  \<^verbatim>\<open>KeyError\<close> at the first record without that column.
\<close>

definition find_search_column :: "session_state \<Rightarrow> error + string" where
  "find_search_column s =
     (case service_metadata s of
        None \<Rightarrow> Inl (AttributeError ''service_metadata'')
      | Some metadata \<Rightarrow>
          (case find (\<lambda>d. Some (name d) = selected_cortex_search_service s) metadata of
             None \<Rightarrow> Inl StopIteration
           | Some d \<Rightarrow> Inr (search_column d)))"

fun context_blocks :: "string \<Rightarrow> (nat \<times> (string \<rightharpoonup> string)) list \<Rightarrow> error + string list" where
  "context_blocks search_col [] = Inr []"
| "context_blocks search_col ((i, r) # rest) =
     (case r search_col of
        None \<Rightarrow> Inl (KeyError search_col)
      | Some text \<Rightarrow>
          (case context_blocks search_col rest of
             Inl e \<Rightarrow> Inl e
           | Inr blocks \<Rightarrow> Inr ((''Context '' @ str_nat (i + 1) @ '': '' @ text) # blocks)))"

definition query_cortex ::
  "backend \<Rightarrow> session_state \<Rightarrow> string \<Rightarrow> string list \<Rightarrow> (string \<times> string) list \<Rightarrow> string action" where
  "query_cortex B s q cols flt =
     (let call = \<lparr>svc = selected_cortex_search_service s, query = q, columns = cols,
                  filter_clause = flt, limit = num_retrieved_chunks s\<rparr>
      in and_then ([Searched call], search B call) (\<lambda>results.
         and_then ([], find_search_column s) (\<lambda>col.
         let search_col = lower col
         in and_then ([], context_blocks search_col (enumerate 0 results)) (\<lambda>blocks.
            let context = join (nl @ nl) blocks
            in (if debug s then [SidebarTextArea context] else [], Inr context)))))"

text \<open>
  \<^verbatim>\<open>def build_prompt(question):
    chat_history = get_chat_history() if st.session_state.use_chat_history else []
    chat_text = "\n".join([msg["content"] for msg in chat_history if msg["role"] == "user"])
    summary = summarize_chat(chat_text, question) if chat_history else question
    context = query_cortex(summary)
    prompt = f"""
    [INST]
    You are SS IntelliBot, a helpful AI assistant with access to PDF-based knowledge.
    Use the provided <context> and <chat_history> to answer user questions.
    Respond clearly, briefly, and helpfully.

    <chat_history>{chat_text}</chat_history>
    <context>{context}</context>
    <question>{question}</question>
    [/INST]
    Answer:
    """
    return prompt\<close>
\<close>

definition final_prompt :: "string \<Rightarrow> string \<Rightarrow> string \<Rightarrow> string" where
  "final_prompt chat_text context question =
     nl @ ''    [INST]'' @ nl @
     ''    You are SS IntelliBot, a helpful AI assistant with access to PDF-based knowledge.'' @ nl @
     ''    Use the provided <context> and <chat_history> to answer user questions.'' @ nl @
     ''    Respond clearly, briefly, and helpfully.'' @ nl @
     nl @
     ''    <chat_history>'' @ chat_text @ ''</chat_history>'' @ nl @
     ''    <context>'' @ context @ ''</context>'' @ nl @
     ''    <question>'' @ question @ ''</question>'' @ nl @
     ''    [/INST]'' @ nl @
     ''    Answer:'' @ nl @
     ''    ''"

definition user_text :: "turn list \<Rightarrow> string" where
  "user_text chat_history =
     join nl (map content (filter (\<lambda>msg. role msg = ''user'') chat_history))"

definition build_prompt :: "backend \<Rightarrow> session_state \<Rightarrow> string \<Rightarrow> string action" where
  "build_prompt B s question =
     and_then (if use_chat_history s then ([], get_chat_history s) else ret []) (\<lambda>chat_history.
     let chat_text = user_text chat_history
     in and_then (if chat_history \<noteq> [] then summarize_chat B s chat_text question
                  else ret question) (\<lambda>summary.
        and_then (query_cortex B s summary [] []) (\<lambda>context.
        ret (final_prompt chat_text context question))))"

text \<open>
  What the user did before a run: the values of the configuration widgets, the file in the
  uploader, a click on the summary button and the text submitted in the chat input.
  \<open>st.button\<close> yields \<open>True\<close> only in the run its click started.
\<close>

record inputs =
  w_dark_mode :: bool
  w_selected_cortex_search_service :: "string option"
  w_clear_conversation :: bool
  w_debug :: bool
  w_use_chat_history :: bool
  w_selected_topic :: string
  w_model_name :: string
  w_num_retrieved_chunks :: int
  w_num_chat_messages :: int
  uploaded_file :: "string option"
  summary_clicked :: bool
  chat_submission :: "string option"

text \<open>
  \<^verbatim>\<open>def init_config():
    with st.sidebar:
        st.toggle("Dark Mode", key="dark_mode", value=False)
        apply_theme()
        st.title("Configuration")
        st.selectbox("Cortex Search Service", [s["name"] for s in st.session_state.service_metadata], key="selected_cortex_search_service")
        st.button("Clear Chat", key="clear_conversation")
        st.toggle("Debug Mode", key="debug", value=False)
        st.toggle("Use Chat History", key="use_chat_history", value=True)
        st.selectbox("Filter by Topic", TOPICS, key="selected_topic")
        with st.expander("Advanced Options"):
            st.selectbox("Select Model", MODELS, key="model_name")
            st.slider("Context Chunks", 1, 10, 5, key="num_retrieved_chunks")
            st.slider("Chat History Messages", 1, 10, 5, key="num_chat_messages")\<close>
  Each widget stores its value under its key. The model takes the value as the user gave
  it and puts no bound on it beyond its type; \<^verbatim>\<open>apply_theme\<close> only renders.
\<close>

definition init_config :: "inputs \<Rightarrow> session_state \<Rightarrow> session_state" where
  "init_config inp s =
     s\<lparr>dark_mode := w_dark_mode inp,
       selected_cortex_search_service := w_selected_cortex_search_service inp,
       clear_conversation := w_clear_conversation inp,
       debug := w_debug inp,
       use_chat_history := w_use_chat_history inp,
       selected_topic := w_selected_topic inp,
       model_name := w_model_name inp,
       num_retrieved_chunks := w_num_retrieved_chunks inp,
       num_chat_messages := w_num_chat_messages inp\<rparr>"

text \<open>
  \<^verbatim>\<open>def handle_uploaded_pdf():
    uploaded_file = st.sidebar.file_uploader("Upload PDF", type=["pdf"], key="pdf_uploader")
    if uploaded_file is not None:
        st.session_state.uploaded_pdf = uploaded_file.name
        st.sidebar.success(f"Uploaded: {uploaded_file.name}")\<close>
\<close>

definition handle_uploaded_pdf :: "inputs \<Rightarrow> session_state \<Rightarrow> session_state" where
  "handle_uploaded_pdf inp s =
     (case uploaded_file inp of
        None \<Rightarrow> s
      | Some file_name \<Rightarrow> s\<lparr>uploaded_pdf := Some file_name\<rparr>)"

text \<open>
  \<^verbatim>\<open>def generate_summary():
    full_history = st.session_state.messages
    formatted_history = ""
    for m in full_history:
        role = "User" if m["role"] == "user" else "Assistant"
        formatted_history += f"{role}: {m['content']}\n"
    prompt = f"""
    [INST]
    You are an expert summarizer. Summarize the following chat conversation into 5-7 key bullet points that capture the main ideas and solutions shared by the assistant. Be concise, and do not repeat.
    <chat_history>
    {formatted_history}
    </chat_history>
    Your output should look like:
    - Point 1
    - Point 2
    ...
    [/INST]
    """
    summary = complete(st.session_state.model_name, prompt)
    return summary.strip()\<close>
\<close>

definition format_history :: "turn list \<Rightarrow> string" where
  "format_history full_history =
     foldl (\<lambda>formatted_history m.
              formatted_history @
              (if role m = ''user'' then ''User'' else ''Assistant'') @ '': '' @ content m @ nl)
       [] full_history"

definition summary_prompt :: "string \<Rightarrow> string" where
  "summary_prompt formatted_history =
     nl @ ''    [INST]'' @ nl @
     ''    You are an expert summarizer. Summarize the following chat conversation into 5-7 key bullet points that capture the main ideas and solutions shared by the assistant. Be concise, and do not repeat.'' @ nl @
     ''    <chat_history>'' @ nl @
     ''    '' @ formatted_history @ nl @
     ''    </chat_history>'' @ nl @
     ''    Your output should look like:'' @ nl @
     ''    - Point 1'' @ nl @
     ''    - Point 2'' @ nl @
     ''    ...'' @ nl @
     ''    [/INST]'' @ nl @
     ''    ''"

definition generate_summary :: "backend \<Rightarrow> session_state \<Rightarrow> string action" where
  "generate_summary B s =
     and_then ([], case messages s of
                     None \<Rightarrow> Inl (AttributeError ''messages'')
                   | Some full_history \<Rightarrow> Inr full_history) (\<lambda>full_history.
     and_then (complete B (model_name s) (summary_prompt (format_history full_history)))
       (\<lambda>summary. ret (strip summary)))"

text \<open>
  \<^verbatim>\<open>st.chat_input(..., disabled=disable_chat)\<close>: a disabled chat input accepts no
  submission, so it yields \<^verbatim>\<open>None\<close> whatever the user typed.
\<close>

definition chat_input :: "bool \<Rightarrow> string option \<Rightarrow> string option" where
  "chat_input disabled submitted = (if disabled then None else submitted)"

text \<open>\<^verbatim>\<open>st.session_state.messages.append(t)\<close>.\<close>

definition append_message :: "turn \<Rightarrow> session_state \<Rightarrow> error + session_state" where
  "append_message t s =
     (case messages s of
        None \<Rightarrow> Inl (AttributeError ''messages'')
      | Some ms \<Rightarrow> Inr (s\<lparr>messages := Some (ms @ [t])\<rparr>))"

text \<open>
  A run ends with the session state as the run left it, the effects it had, and the
  exception that ended it, if one did: what the script wrote to \<^verbatim>\<open>st.session_state\<close>
  before an exception stays written.
\<close>

record run =
  final :: session_state
  effects :: "effect list"
  raised :: "error option"

text \<open>
  The body of the \<^verbatim>\<open>if question := st.chat_input(...)\<close> of \<^verbatim>\<open>main\<close>:
  \<^verbatim>\<open>st.session_state.messages.append({"role": "user", "content": question})
    with st.spinner("SS IntelliBot is typing..."):
        prompt = build_prompt(question.replace("'", ""))
        reply = complete(st.session_state.model_name, prompt)
        st.session_state.messages.append({"role": "assistant", "content": reply})
        st.markdown(f"<div class='chat-left'>{reply}</div>", unsafe_allow_html=True)\<close>
\<close>

definition answer :: "backend \<Rightarrow> string \<Rightarrow> session_state \<Rightarrow> run" where
  "answer B question s =
     (case append_message \<lparr>role = ''user'', content = question\<rparr> s of
        Inl e \<Rightarrow> \<lparr>final = s, effects = [], raised = Some e\<rparr>
      | Inr s1 \<Rightarrow>
          (case and_then (build_prompt B s1 (str_replace question [quote] []))
                  (\<lambda>prompt. complete B (model_name s1) prompt) of
             (log, Inl e) \<Rightarrow> \<lparr>final = s1, effects = log, raised = Some e\<rparr>
           | (log, Inr reply) \<Rightarrow>
               (case append_message \<lparr>role = ''assistant'', content = reply\<rparr> s1 of
                  Inl e \<Rightarrow> \<lparr>final = s1, effects = log, raised = Some e\<rparr>
                | Inr s2 \<Rightarrow> \<lparr>final = s2, effects = log, raised = None\<rparr>)))"

text \<open>
  The part of \<^verbatim>\<open>main\<close> after the chat input:
  \<^verbatim>\<open>if st.session_state.messages:
        with st.expander("Generate Summary"):
            if st.button("Generate Insight Summary"):
                summary = generate_summary()
                st.markdown(...)\<close>
  The download button and the feedback radio that follow only render.
\<close>

definition summary_section :: "backend \<Rightarrow> inputs \<Rightarrow> run \<Rightarrow> run" where
  "summary_section B inp r =
     (if raised r \<noteq> None then r
      else
        (case messages (final r) of
           None \<Rightarrow> r\<lparr>raised := Some (AttributeError ''messages'')\<rparr>
         | Some ms \<Rightarrow>
             if ms \<noteq> [] \<and> summary_clicked inp then
               (case generate_summary B (final r) of
                  (log, Inl e) \<Rightarrow> r\<lparr>effects := effects r @ log, raised := Some e\<rparr>
                | (log, Inr summary) \<Rightarrow> r\<lparr>effects := effects r @ log\<rparr>)
             else r))"

text \<open>
  \<^verbatim>\<open>def main():
    st.markdown(...)
    add_custom_css()
    handle_uploaded_pdf()
    init_service_metadata()
    init_config()
    init_messages()
    ...
    disable_chat = not st.session_state.service_metadata
    if question := st.chat_input("Ask your question...", disabled=disable_chat):
        ...\<close>
  The calls that only render (the title, the style sheet, the welcome text, the transcript)
  are left out. An empty list and an empty string are false in Python; reading a key that
  is absent raises.
\<close>

definition main :: "backend \<Rightarrow> inputs \<Rightarrow> session_state \<Rightarrow> run" where
  "main B inp s0 =
     (let s1 = handle_uploaded_pdf inp s0
      in case init_service_metadata B s1 of
           Inl e \<Rightarrow> \<lparr>final = s1, effects = [], raised = Some e\<rparr>
         | Inr s2 \<Rightarrow>
             (let s3 = init_messages (init_config inp s2)
              in case service_metadata s3 of
                   None \<Rightarrow>
                     \<lparr>final = s3, effects = [], raised = Some (AttributeError ''service_metadata'')\<rparr>
                 | Some metadata \<Rightarrow>
                     (let disable_chat = (metadata = [])
                      in summary_section B inp
                           (case chat_input disable_chat (chat_submission inp) of
                              None \<Rightarrow> \<lparr>final = s3, effects = [], raised = None\<rparr>
                            | Some question \<Rightarrow>
                                if question = [] then \<lparr>final = s3, effects = [], raised = None\<rparr>
                                else answer B question s3))))"

section \<open>Sessions\<close>

text \<open>
  A session starts with none of the program's keys in \<^verbatim>\<open>st.session_state\<close>, and
  goes on by runs of \<^verbatim>\<open>main\<close>, each on the state the previous run left.
\<close>

definition fresh :: "session_state \<Rightarrow> bool" where
  "fresh s =
     (pinned_messages s = None \<and> messages s = None \<and> service_metadata s = None \<and>
      uploaded_pdf s = None)"

inductive reachable :: "backend \<Rightarrow> session_state \<Rightarrow> bool" for B :: backend where
  start: "fresh s \<Longrightarrow> reachable B s"
| step: "reachable B s \<Longrightarrow> reachable B (final (main B inp s))"

fun runs :: "backend \<Rightarrow> inputs list \<Rightarrow> session_state \<Rightarrow> session_state" where
  "runs B [] s = s"
| "runs B (inp # inps) s = runs B inps (final (main B inp s))"

text \<open>The Conversation: the list under the key \<open>messages\<close>, empty while the key is absent.\<close>

definition conversation :: "session_state \<Rightarrow> turn list" where
  "conversation s = (case messages s of None \<Rightarrow> [] | Some ms \<Rightarrow> ms)"

text \<open>
  A search call is unfiltered when it carries the empty filter and names no extra column;
  the other effects are no search calls.
\<close>

definition unfiltered :: "effect \<Rightarrow> bool" where
  "unfiltered e = (case e of Searched c \<Rightarrow> filter_clause c = [] \<and> columns c = [] | _ \<Rightarrow> True)"

section \<open>A sample session\<close>

text \<open>
  A backend with one search service \<open>DOCS\<close> whose search column is \<open>CHUNK\<close>. It holds
  eight matches, returns the first \<open>limit\<close> of them with the column in lower case, and
  its completion is always the same text.
\<close>

definition sample_matches :: "(string \<rightharpoonup> string) list" where
  "sample_matches =
     map (\<lambda>t. [''chunk'' \<mapsto> t]) [''a'', ''b'', ''c'', ''d'', ''e'', ''f'', ''g'', ''h'']"

definition sample_backend :: backend where
  "sample_backend =
     \<lparr>show_services = Inr [''DOCS''],
      desc_service = (\<lambda>n. Inr [''CHUNK'']),
      search = (\<lambda>c. Inr (take (nat (limit c)) sample_matches)),
      Complete = (\<lambda>m p. Inr ''It costs $5'')\<rparr>"

text \<open>A backend on which no search service is configured.\<close>

definition bare_backend :: backend where
  "bare_backend =
     \<lparr>show_services = Inr [],
      desc_service = (\<lambda>n. Inr []),
      search = (\<lambda>c. Inr []),
      Complete = (\<lambda>m p. Inr ''It costs $5'')\<rparr>"

definition sample_inputs :: inputs where
  "sample_inputs =
     \<lparr>w_dark_mode = False, w_selected_cortex_search_service = Some ''DOCS'',
      w_clear_conversation = False, w_debug = False, w_use_chat_history = True,
      w_selected_topic = ''All Topics'', w_model_name = ''mistral-large2'',
      w_num_retrieved_chunks = 5, w_num_chat_messages = 5,
      uploaded_file = None, summary_clicked = False, chat_submission = None\<rparr>"

definition new_session :: session_state where
  "new_session =
     \<lparr>pinned_messages = None, messages = None, service_metadata = None, uploaded_pdf = None,
      dark_mode = False, selected_cortex_search_service = None, clear_conversation = False,
      debug = False, use_chat_history = True, selected_topic = [], model_name = [],
      num_retrieved_chunks = 5, num_chat_messages = 5\<rparr>"

text \<open>A session in its third exchange: two answered questions and a pending one.\<close>

definition sample_turns :: "turn list" where
  "sample_turns =
     [\<lparr>role = ''user'', content = ''Hi''\<rparr>, \<lparr>role = ''assistant'', content = ''ZZZ''\<rparr>,
      \<lparr>role = ''user'', content = ''Why''\<rparr>, \<lparr>role = ''assistant'', content = ''QQQ''\<rparr>,
      \<lparr>role = ''user'', content = ''How''\<rparr>]"

definition sample_session :: session_state where
  "sample_session =
     \<lparr>pinned_messages = Some [], messages = Some sample_turns,
      service_metadata = Some [\<lparr>name = ''DOCS'', search_column = ''CHUNK''\<rparr>],
      uploaded_pdf = None, dark_mode = False,
      selected_cortex_search_service = Some ''DOCS'', clear_conversation = False,
      debug = False, use_chat_history = True, selected_topic = ''All Topics'',
      model_name = ''mistral-large2'', num_retrieved_chunks = 5, num_chat_messages = 3\<rparr>"

text \<open>
  The same session when two services were discovered and the second one is selected.
\<close>

definition two_service_session :: session_state where
  "two_service_session =
     sample_session\<lparr>service_metadata :=
       Some [\<lparr>name = ''NOTES'', search_column = ''BODY''\<rparr>,
             \<lparr>name = ''DOCS'', search_column = ''CHUNK''\<rparr>]\<rparr>"

text \<open>The question of the specification's scenario, \<^verbatim>\<open>What's OWASP?\<close>.\<close>

definition owasp_question :: string where
  "owasp_question = ''What'' @ [quote] @ ''s OWASP?''"

text \<open>
  What the user does in the sample session: asks the question of the scenario, asks
  a second question, or clicks the Clear Chat button. \<open>first_exchange\<close> is the session
  after the first question has been answered.
\<close>

definition ask_owasp :: inputs where
  "ask_owasp = sample_inputs\<lparr>chat_submission := Some owasp_question\<rparr>"

definition ask_more :: inputs where
  "ask_more = sample_inputs\<lparr>chat_submission := Some ''more''\<rparr>"

definition clear_click :: inputs where
  "clear_click = sample_inputs\<lparr>w_clear_conversation := True\<rparr>"

definition first_exchange :: session_state where
  "first_exchange = final (main sample_backend ask_owasp new_session)"

text \<open>The context the sample backend gives for five chunks.\<close>

definition sample_context :: string where
  "sample_context =
     ''Context 1: a'' @ nl @ nl @ ''Context 2: b'' @ nl @ nl @ ''Context 3: c'' @ nl @ nl @
     ''Context 4: d'' @ nl @ nl @ ''Context 5: e''"

text \<open>
  The two answer prompts of the sample session, written out: the one for the question of
  the scenario asked in a new session, and the one for the third question \<open>How\<close>.
\<close>

definition owasp_answer_prompt :: string where
  "owasp_answer_prompt =
     nl @ ''    [INST]'' @ nl @
     ''    You are SS IntelliBot, a helpful AI assistant with access to PDF-based knowledge.'' @ nl @
     ''    Use the provided <context> and <chat_history> to answer user questions.'' @ nl @
     ''    Respond clearly, briefly, and helpfully.'' @ nl @
     nl @
     ''    <chat_history></chat_history>'' @ nl @
     ''    <context>Context 1: a'' @ nl @ nl @ ''Context 2: b'' @ nl @ nl @ ''Context 3: c'' @
       nl @ nl @ ''Context 4: d'' @ nl @ nl @ ''Context 5: e</context>'' @ nl @
     ''    <question>Whats OWASP?</question>'' @ nl @
     ''    [/INST]'' @ nl @
     ''    Answer:'' @ nl @
     ''    ''"

definition how_answer_prompt :: string where
  "how_answer_prompt =
     nl @ ''    [INST]'' @ nl @
     ''    You are SS IntelliBot, a helpful AI assistant with access to PDF-based knowledge.'' @ nl @
     ''    Use the provided <context> and <chat_history> to answer user questions.'' @ nl @
     ''    Respond clearly, briefly, and helpfully.'' @ nl @
     nl @
     ''    <chat_history>Why</chat_history>'' @ nl @
     ''    <context>Context 1: a'' @ nl @ nl @ ''Context 2: b'' @ nl @ nl @ ''Context 3: c'' @
       nl @ nl @ ''Context 4: d'' @ nl @ nl @ ''Context 5: e</context>'' @ nl @
     ''    <question>How</question>'' @ nl @
     ''    [/INST]'' @ nl @
     ''    Answer:'' @ nl @
     ''    ''"

section \<open>Facts about the primitives\<close>

declare str_nat.simps [simp del]

lemma str_replace_char:
  "str_replace s [a] new = concat (map (\<lambda>c. if c = a then new else [c]) s)"
  by (induction s) auto

lemma str_replace_delete: "str_replace s [a] [] = filter (\<lambda>c. c \<noteq> a) s"
  by (induction s) auto

lemma slice_window:
  assumes "1 \<le> n"
  shows "py_slice ms (- n) (- 1) = butlast (drop (length ms - nat n) ms)"
  using assms
  by (auto simp: py_slice_def slice_bound_def Let_def butlast_conv_take max_def min_def
      drop_take nat_diff_distrib)

lemma window_nth:
  assumes "i < length (butlast (drop (length ms - n) ms))"
  shows "butlast (drop (length ms - n) ms) ! i = ms ! (length ms - n + i)
         \<and> length ms - n + i < length ms - 1"
  using assms by (auto simp: nth_butlast)

lemma and_then_Inl [simp]: "and_then (log, Inl e) f = (log, Inl e)"
  by (simp add: and_then_def)

lemma and_then_Inr [simp]: "and_then (log, Inr x) f = (log @ fst (f x), snd (f x))"
  by (simp add: and_then_def split: prod.splits)

lemma and_then_ret [simp]: "and_then (ret x) f = f x"
  by (simp add: ret_def)

lemma lower_CHUNK: "lower ''CHUNK'' = ''chunk''"
  by code_simp

lemma str_nat_small:
  "str_nat (Suc 0) = ''1''"
  "str_nat (Suc (Suc 0)) = ''2''"
  "str_nat (Suc (Suc (Suc 0))) = ''3''"
  "str_nat (Suc (Suc (Suc (Suc 0)))) = ''4''"
  "str_nat (Suc (Suc (Suc (Suc (Suc 0))))) = ''5''"
  by code_simp+

section \<open>The history window\<close>

text \<open>
  C3. With \<open>num_chat_messages = n \<ge> 1\<close> (the slider gives \<open>1 \<le> n \<le> 10\<close>) and a
  Conversation \<open>ms\<close> of length \<open>L\<close>, \<^verbatim>\<open>get_chat_history\<close> returns the last \<open>n\<close> turns
  of \<open>ms\<close> with the most recent one left out: the turns at the positions from
  \<open>L - n\<close> (or \<open>0\<close>) up to, and not including, \<open>L - 1\<close>. So the most recent turn is never
  in the window, the window has \<open>min n L - 1\<close> turns, and it is empty for \<open>L = 0\<close> and
  \<open>L = 1\<close>.
\<close>

theorem get_chat_history_window:
  assumes "messages s = Some ms" and "1 \<le> num_chat_messages s"
  shows "get_chat_history s = Inr (butlast (drop (length ms - nat (num_chat_messages s)) ms)) \<and>
         length (butlast (drop (length ms - nat (num_chat_messages s)) ms)) =
           min (nat (num_chat_messages s)) (length ms) - 1 \<and>
         (\<forall>i < length (butlast (drop (length ms - nat (num_chat_messages s)) ms)).
            butlast (drop (length ms - nat (num_chat_messages s)) ms) ! i =
              ms ! (length ms - nat (num_chat_messages s) + i) \<and>
            length ms - nat (num_chat_messages s) + i < length ms - 1) \<and>
         (length ms \<le> 1 \<longrightarrow> get_chat_history s = Inr [])"
proof -
  have win: "get_chat_history s = Inr (butlast (drop (length ms - nat (num_chat_messages s)) ms))"
    using assms by (simp add: get_chat_history_def slice_window)
  have len: "length (butlast (drop (length ms - nat (num_chat_messages s)) ms)) =
           min (nat (num_chat_messages s)) (length ms) - 1"
    by (simp add: min_def)
  have short: "length ms \<le> 1 \<longrightarrow> get_chat_history s = Inr []"
    unfolding win by (cases ms) (auto simp: drop_Cons split: nat.splits)
  show ?thesis
    using win len short window_nth [of _ ms "nat (num_chat_messages s)"] by blast
qed

theorem get_chat_history_window_witness:
  "messages sample_session = Some sample_turns \<and> 1 \<le> num_chat_messages sample_session \<and>
   get_chat_history sample_session =
     Inr [\<lparr>role = ''user'', content = ''Why''\<rparr>, \<lparr>role = ''assistant'', content = ''QQQ''\<rparr>]"
  using get_chat_history_window [of sample_session sample_turns]
  by (simp add: sample_session_def sample_turns_def)

section \<open>Escaping of the completion\<close>

text \<open>
  C4. Whatever text the completion backend returns, \<^verbatim>\<open>complete\<close> returns it with
  every dollar sign replaced by a backslash followed by the dollar sign, and every other
  character kept as it is, in order. When the backend raises, so does \<^verbatim>\<open>complete\<close>.
\<close>

theorem complete_escapes_dollar:
  "snd (complete B model prompt) =
     (case Complete B model prompt of
        Inl e \<Rightarrow> Inl e
      | Inr text \<Rightarrow>
          Inr (concat (map (\<lambda>c. if c = dollar then [backslash, dollar] else [c]) text)))"
  by (simp add: complete_def str_replace_char split: sum.splits)

section \<open>The retrieved context\<close>

lemma context_blocks_all:
  assumes "\<forall>r \<in> set rs. r col \<noteq> None"
  shows "context_blocks col (enumerate n rs) =
           Inr (map (\<lambda>i. ''Context '' @ str_nat (n + i + 1) @ '': '' @ the ((rs ! i) col))
                  [0..<length rs])"
  using assms
proof (induction rs arbitrary: n)
  case Nil
  then show ?case by simp
next
  case (Cons r rs)
  have shift: "[Suc 0..<Suc (length rs)] = map Suc [0..<length rs]"
    by (simp add: map_Suc_upt)
  have "map (\<lambda>i. ''Context '' @ str_nat (n + i + 1) @ '': '' @ the (((r # rs) ! i) col))
          [0..<length (r # rs)]
      = (''Context '' @ str_nat (n + 1) @ '': '' @ the (r col)) #
        map (\<lambda>i. ''Context '' @ str_nat (Suc n + i + 1) @ '': '' @ the ((rs ! i) col))
          [0..<length rs]"
    by (simp add: upt_conv_Cons shift o_def del: upt_Suc)
  with Cons show ?case by auto
qed

lemma sample_search:
  "search sample_backend
     \<lparr>svc = Some ''DOCS'', query = q, columns = [], filter_clause = [], limit = 5\<rparr>
     = Inr (map (\<lambda>t. [''chunk'' \<mapsto> t]) [''a'', ''b'', ''c'', ''d'', ''e''])"
  by (simp add: sample_backend_def sample_matches_def)

lemma sample_column: "find_search_column sample_session = Inr ''CHUNK''"
  by (simp add: find_search_column_def sample_session_def)

lemma find_first:
  assumes "P d" and "\<forall>x \<in> set before. \<not> P x"
  shows "find P (before @ d # after) = Some d"
  using assms by (induction before) auto

lemma lower_capitals:
  "lower [CHR ''Z'', CHR ''z'', CHR 0xC9, CHR 0xD7, CHR 0xDE, CHR 0xDF, CHR ''_'']
     = [CHR ''z'', CHR ''z'', CHR 0xE9, CHR 0xD7, CHR 0xFE, CHR 0xDF, CHR ''_'']"
  by code_simp

text \<open>
  C5. Let the backend return the records \<open>results\<close> (\<open>k\<close> of them) for the search call
  that \<^verbatim>\<open>query_cortex\<close> makes, with the limit \<open>num_retrieved_chunks\<close>; let \<open>d\<close> be the
  first discovered descriptor that has the name of the selected service; and let every
  record have the column \<open>search_column d\<close> in lower case. Then \<^verbatim>\<open>query_cortex\<close>
  returns the \<open>k\<close> blocks \<open>Context 1: ...\<close> to \<open>Context k: ...\<close> joined by blank
  lines, block \<open>i + 1\<close> holding the text of the \<open>i\<close>-th record under that column, in the
  backend's order; it made that one search call, and it showed the context in the sidebar
  exactly when the debug flag is set.
\<close>

theorem query_cortex_context_blocks:
  assumes "search B \<lparr>svc = selected_cortex_search_service s, query = q, columns = cols,
                      filter_clause = flt, limit = num_retrieved_chunks s\<rparr> = Inr results"
    and "service_metadata s = Some (before @ d # after)"
    and "selected_cortex_search_service s = Some (name d)"
    and "\<forall>d' \<in> set before. name d' \<noteq> name d"
    and "\<forall>r \<in> set results. r (lower (search_column d)) \<noteq> None"
  shows "snd (query_cortex B s q cols flt) =
           Inr (join (nl @ nl)
                  (map (\<lambda>i. ''Context '' @ str_nat (i + 1) @ '': '' @
                             the ((results ! i) (lower (search_column d))))
                     [0..<length results])) \<and>
         fst (query_cortex B s q cols flt) =
           Searched \<lparr>svc = selected_cortex_search_service s, query = q, columns = cols,
                      filter_clause = flt, limit = num_retrieved_chunks s\<rparr> #
           (if debug s
            then [SidebarTextArea
                    (join (nl @ nl)
                       (map (\<lambda>i. ''Context '' @ str_nat (i + 1) @ '': '' @
                                  the ((results ! i) (lower (search_column d))))
                          [0..<length results]))]
            else [])"
proof -
  have "find (\<lambda>x. Some (name x) = selected_cortex_search_service s) (before @ d # after) = Some d"
    using assms(3,4) by (intro find_first) auto
  then have col: "find_search_column s = Inr (search_column d)"
    using assms(2) by (simp add: find_search_column_def)
  show ?thesis
    using assms(1) col context_blocks_all [OF assms(5), of 0]
    by (simp add: query_cortex_def Let_def)
qed

text \<open>
  With \<open>num_retrieved_chunks = 5\<close> on the sample backend, which holds eight matches and
  returns the first five, and with the second of two discovered services selected: five
  blocks, \<open>Context 1\<close> to \<open>Context 5\<close>, read from the column of the selected service.
\<close>

theorem query_cortex_context_blocks_witness:
  "search sample_backend
     \<lparr>svc = Some ''DOCS'', query = ''q'', columns = [], filter_clause = [], limit = 5\<rparr>
     = Inr (map (\<lambda>t. [''chunk'' \<mapsto> t]) [''a'', ''b'', ''c'', ''d'', ''e'']) \<and>
   service_metadata two_service_session =
     Some ([\<lparr>name = ''NOTES'', search_column = ''BODY''\<rparr>] @
           \<lparr>name = ''DOCS'', search_column = ''CHUNK''\<rparr> # []) \<and>
   selected_cortex_search_service two_service_session = Some ''DOCS'' \<and>
   snd (query_cortex sample_backend two_service_session ''q'' [] []) =
     Inr (''Context 1: a'' @ nl @ nl @ ''Context 2: b'' @ nl @ nl @ ''Context 3: c'' @ nl @ nl @
          ''Context 4: d'' @ nl @ nl @ ''Context 5: e'') \<and>
   fst (query_cortex sample_backend two_service_session ''q'' [] []) =
     [Searched \<lparr>svc = Some ''DOCS'', query = ''q'', columns = [], filter_clause = [],
                 limit = 5\<rparr>]"
proof -
  have sel: "selected_cortex_search_service two_service_session = Some ''DOCS''"
    "num_retrieved_chunks two_service_session = 5" "\<not> debug two_service_session"
    "service_metadata two_service_session =
       Some ([\<lparr>name = ''NOTES'', search_column = ''BODY''\<rparr>] @
             \<lparr>name = ''DOCS'', search_column = ''CHUNK''\<rparr> # [])"
    by (simp_all add: two_service_session_def sample_session_def)
  have five: "[0..<5] = [0, 1, 2, 3, 4::nat]"
    by code_simp
  show ?thesis
    using query_cortex_context_blocks [of sample_backend two_service_session "''q''" "[]" "[]"
        "map (\<lambda>t. [''chunk'' \<mapsto> t]) [''a'', ''b'', ''c'', ''d'', ''e'']"
        "[\<lparr>name = ''NOTES'', search_column = ''BODY''\<rparr>]"
        "\<lparr>name = ''DOCS'', search_column = ''CHUNK''\<rparr>" "[]"]
    by (simp add: sel sample_search lower_CHUNK five str_nat_small)
qed

section \<open>The debug toggle\<close>

lemma find_search_column_debug [simp]:
  "find_search_column (s\<lparr>debug := d\<rparr>) = find_search_column s"
  by (simp add: find_search_column_def cong: option.case_cong)

text \<open>
  C10. \<^verbatim>\<open>query_cortex\<close> returns the same context, or raises the same exception,
  whatever the debug flag is. The flag decides one thing only: when the context has been
  assembled and the flag is set, the context is also shown in the sidebar text area. The
  search call is the same in both cases.
\<close>

theorem debug_only_displays:
  "snd (query_cortex B (s\<lparr>debug := d\<rparr>) q cols flt) = snd (query_cortex B s q cols flt) \<and>
   fst (query_cortex B (s\<lparr>debug := d\<rparr>) q cols flt) =
     Searched \<lparr>svc = selected_cortex_search_service s, query = q, columns = cols,
                filter_clause = flt, limit = num_retrieved_chunks s\<rparr> #
     (case snd (query_cortex B s q cols flt) of
        Inl e \<Rightarrow> []
      | Inr context \<Rightarrow> if d then [SidebarTextArea context] else [])"
  by (cases "search B \<lparr>svc = selected_cortex_search_service s, query = q, columns = cols,
                filter_clause = flt, limit = num_retrieved_chunks s\<rparr>";
      cases "find_search_column s";
      cases "context_blocks (lower (projr (find_search_column s)))
               (enumerate 0 (projr (search B \<lparr>svc = selected_cortex_search_service s,
                  query = q, columns = cols, filter_clause = flt,
                  limit = num_retrieved_chunks s\<rparr>)))")
     (simp_all add: query_cortex_def Let_def)

section \<open>What a run of main does to the session state\<close>

lemma handle_uploaded_pdf_keeps [simp]:
  "messages (handle_uploaded_pdf inp s) = messages s"
  "pinned_messages (handle_uploaded_pdf inp s) = pinned_messages s"
  "service_metadata (handle_uploaded_pdf inp s) = service_metadata s"
  by (simp_all add: handle_uploaded_pdf_def split: option.splits)

lemma init_service_metadata_keeps:
  assumes "init_service_metadata B s = Inr s'"
  shows "messages s' = messages s" "pinned_messages s' = pinned_messages s"
    "service_metadata s' \<noteq> None"
    "service_metadata s \<noteq> None \<Longrightarrow> s' = s"
  using assms by (auto simp: init_service_metadata_def split: if_splits sum.splits)

lemma init_config_keeps [simp]:
  "messages (init_config inp s) = messages s"
  "pinned_messages (init_config inp s) = pinned_messages s"
  "service_metadata (init_config inp s) = service_metadata s"
  "clear_conversation (init_config inp s) = w_clear_conversation inp"
  by (simp_all add: init_config_def)

lemma init_messages_simps [simp]:
  "messages (init_messages s) =
     (if clear_conversation s \<or> messages s = None then Some [] else messages s)"
  "pinned_messages (init_messages s) =
     (if pinned_messages s = None then Some [] else pinned_messages s)"
  "service_metadata (init_messages s) = service_metadata s"
  by (simp_all add: init_messages_def Let_def)

lemma init_messages_present: "\<exists>ms. messages (init_messages s) = Some ms"
  by (cases "messages s") auto

lemma final_summary_section [simp]: "final (summary_section B inp r) = final r"
  by (simp add: summary_section_def split: option.splits prod.splits sum.splits)

lemma final_answer:
  assumes "messages s = Some ms"
  shows "\<exists>rest. final (answer B q s) = s\<lparr>messages := Some (ms @ \<lparr>role = ''user'', content = q\<rparr> # rest)\<rparr>
           \<and> (rest = [] \<or> (\<exists>reply. rest = [\<lparr>role = ''assistant'', content = reply\<rparr>]))"
  using assms
  by (auto simp: answer_def append_message_def split: prod.splits sum.splits)

lemma final_main:
  "final (main B inp s) =
     (case init_service_metadata B (handle_uploaded_pdf inp s) of
        Inl e \<Rightarrow> handle_uploaded_pdf inp s
      | Inr s2 \<Rightarrow>
          (let s3 = init_messages (init_config inp s2)
           in case chat_submission inp of
                None \<Rightarrow> s3
              | Some q \<Rightarrow>
                  if q = [] \<or> service_metadata s3 = None \<or> service_metadata s3 = Some [] then s3
                  else final (answer B q s3)))"
  by (simp add: main_def Let_def chat_input_def split: sum.splits option.splits)

lemma main_cases [case_names aborted quiet answered]:
  obtains "final (main B inp s) = handle_uploaded_pdf inp s"
  | s2 where "init_service_metadata B (handle_uploaded_pdf inp s) = Inr s2"
      and "final (main B inp s) = init_messages (init_config inp s2)"
  | s2 q where "init_service_metadata B (handle_uploaded_pdf inp s) = Inr s2"
      and "chat_submission inp = Some q" and "q \<noteq> []"
      and "service_metadata s2 \<noteq> None" and "service_metadata s2 \<noteq> Some []"
      and "final (main B inp s) = final (answer B q (init_messages (init_config inp s2)))"
proof (cases "init_service_metadata B (handle_uploaded_pdf inp s)")
  case (Inl e)
  then have "final (main B inp s) = handle_uploaded_pdf inp s"
    by (simp add: final_main)
  then show ?thesis by (rule that(1))
next
  case (Inr s2)
  show ?thesis
  proof (cases "chat_submission inp")
    case None
    with Inr have "final (main B inp s) = init_messages (init_config inp s2)"
      by (simp add: final_main)
    with Inr show ?thesis by (rule that(2))
  next
    case (Some q)
    show ?thesis
    proof (cases "q = [] \<or> service_metadata s2 = None \<or> service_metadata s2 = Some []")
      case True
      with Inr Some have "final (main B inp s) = init_messages (init_config inp s2)"
        by (simp add: final_main)
      with Inr show ?thesis by (rule that(2))
    next
      case False
      with Inr Some
      have "final (main B inp s) = final (answer B q (init_messages (init_config inp s2)))"
        by (auto simp: final_main Let_def)
      with Inr Some False show ?thesis by (intro that(3)) auto
    qed
  qed
qed

lemma main_keeps_invariant:
  assumes pin: "pinned_messages s = None \<or> pinned_messages s = Some []"
    and absent: "service_metadata s = None \<longrightarrow> messages s = None"
    and none: "service_metadata s = Some [] \<longrightarrow> messages s = None \<or> messages s = Some []"
  shows "(pinned_messages (final (main B inp s)) = None \<or>
          pinned_messages (final (main B inp s)) = Some []) \<and>
         (service_metadata (final (main B inp s)) = None \<longrightarrow>
            messages (final (main B inp s)) = None) \<and>
         (service_metadata (final (main B inp s)) = Some [] \<longrightarrow>
            messages (final (main B inp s)) = None \<or> messages (final (main B inp s)) = Some [])"
proof (cases B inp s rule: main_cases)
  case aborted
  then show ?thesis using assms by simp
next
  case (quiet s2)
  from init_service_metadata_keeps [OF quiet(1)]
  have k: "messages s2 = messages s" "pinned_messages s2 = pinned_messages s"
    "service_metadata s2 \<noteq> None" "service_metadata s \<noteq> None \<Longrightarrow> service_metadata s2 = service_metadata s"
    by auto
  show ?thesis
    unfolding quiet(2) using assms k by (cases "service_metadata s") auto
next
  case (answered s2 q)
  from init_service_metadata_keeps [OF answered(1)]
  have k: "messages s2 = messages s" "pinned_messages s2 = pinned_messages s"
    by auto
  obtain ms where ms: "messages (init_messages (init_config inp s2)) = Some ms"
    using init_messages_present by blast
  from final_answer [OF ms, of B q] obtain rest where
    "final (answer B q (init_messages (init_config inp s2))) =
       (init_messages (init_config inp s2))\<lparr>messages := Some (ms @ \<lparr>role = ''user'', content = q\<rparr> # rest)\<rparr>"
    by blast
  then show ?thesis
    unfolding answered(6) using assms k answered(4,5) by auto
qed

lemma reachable_invariant:
  assumes "reachable B s"
  shows "(pinned_messages s = None \<or> pinned_messages s = Some []) \<and>
         (service_metadata s = None \<longrightarrow> messages s = None) \<and>
         (service_metadata s = Some [] \<longrightarrow> messages s = None \<or> messages s = Some [])"
  using assms
proof (induction rule: reachable.induct)
  case (start s)
  then show ?case by (simp add: fresh_def)
next
  case (step s inp)
  show ?case
    by (rule main_keeps_invariant) (use step.IH in blast)+
qed

section \<open>The sample session, run\<close>

lemmas sample_defs = sample_backend_def sample_matches_def sample_inputs_def new_session_def
  ask_owasp_def ask_more_def clear_click_def owasp_question_def

lemmas program_defs = main_def Let_def handle_uploaded_pdf_def init_service_metadata_def
  init_config_def init_messages_def chat_input_def answer_def append_message_def
  build_prompt_def get_chat_history_def py_slice_def slice_bound_def user_text_def
  summarize_chat_def complete_def query_cortex_def find_search_column_def
  summary_section_def generate_summary_def

lemma first_run:
  "main sample_backend ask_owasp new_session =
     \<lparr>final = \<lparr>pinned_messages = Some [],
        messages = Some [\<lparr>role = ''user'', content = owasp_question\<rparr>,
                         \<lparr>role = ''assistant'', content = ''It costs '' @ [backslash, dollar] @ ''5''\<rparr>],
        service_metadata = Some [\<lparr>name = ''DOCS'', search_column = ''CHUNK''\<rparr>],
        uploaded_pdf = None, dark_mode = False,
        selected_cortex_search_service = Some ''DOCS'', clear_conversation = False,
        debug = False, use_chat_history = True, selected_topic = ''All Topics'',
        model_name = ''mistral-large2'', num_retrieved_chunks = 5, num_chat_messages = 5\<rparr>,
      effects = [Searched \<lparr>svc = Some ''DOCS'', query = ''Whats OWASP?'', columns = [],
                   filter_clause = [], limit = 5\<rparr>,
                 Completed ''mistral-large2''
                   (final_prompt []
                      (''Context 1: a'' @ nl @ nl @ ''Context 2: b'' @ nl @ nl @ ''Context 3: c'' @ nl @ nl @
                       ''Context 4: d'' @ nl @ nl @ ''Context 5: e'')
                      ''Whats OWASP?'')],
      raised = None\<rparr>"
  by (simp add: program_defs sample_defs lower_CHUNK str_nat_small str_replace_char
        quote_def dollar_def backslash_def ret_def)

lemma first_exchange_value:
  "first_exchange =
     \<lparr>pinned_messages = Some [],
        messages = Some [\<lparr>role = ''user'', content = owasp_question\<rparr>,
                         \<lparr>role = ''assistant'', content = ''It costs '' @ [backslash, dollar] @ ''5''\<rparr>],
        service_metadata = Some [\<lparr>name = ''DOCS'', search_column = ''CHUNK''\<rparr>],
        uploaded_pdf = None, dark_mode = False,
        selected_cortex_search_service = Some ''DOCS'', clear_conversation = False,
        debug = False, use_chat_history = True, selected_topic = ''All Topics'',
        model_name = ''mistral-large2'', num_retrieved_chunks = 5, num_chat_messages = 5\<rparr>"
  by (simp add: first_exchange_def first_run)

lemma reachable_first_exchange: "reachable sample_backend first_exchange"
  unfolding first_exchange_def
  by (rule reachable.step, rule reachable.start) (simp add: fresh_def new_session_def)

lemma sample_window:
  "get_chat_history sample_session =
     Inr [\<lparr>role = ''user'', content = ''Why''\<rparr>, \<lparr>role = ''assistant'', content = ''QQQ''\<rparr>]"
  by (simp add: get_chat_history_def py_slice_def slice_bound_def sample_session_def
        sample_turns_def)

lemma sample_fields:
  "use_chat_history sample_session" "model_name sample_session = ''mistral-large2''"
  "selected_cortex_search_service sample_session = Some ''DOCS''"
  "num_retrieved_chunks sample_session = 5" "\<not> debug sample_session"
  by (simp_all add: sample_session_def)

lemma sample_prompt:
  "build_prompt sample_backend sample_session ''How'' =
     ([Completed ''mistral-large2'' (summarize_prompt ''Why'' ''How''),
       Searched \<lparr>svc = Some ''DOCS'', query = ''It costs '' @ [backslash, dollar] @ ''5'',
                  columns = [], filter_clause = [], limit = 5\<rparr>],
      Inr (final_prompt ''Why'' sample_context ''How''))"
  by (simp add: build_prompt_def sample_window user_text_def Let_def summarize_chat_def
        complete_def query_cortex_def sample_column sample_fields
        sample_backend_def sample_matches_def sample_context_def
        lower_CHUNK str_nat_small str_replace_char dollar_def backslash_def ret_def)

section \<open>The Conversation only grows\<close>

lemma conversation_simps [simp]:
  "conversation (handle_uploaded_pdf inp s) = conversation s"
  "conversation (init_config inp s) = conversation s"
  by (simp_all add: conversation_def)

lemma conversation_init_messages:
  "\<not> clear_conversation s \<Longrightarrow> conversation (init_messages s) = conversation s"
  by (simp add: conversation_def)

lemma main_appends:
  assumes "\<not> w_clear_conversation inp"
  shows "\<exists>added. conversation (final (main B inp s)) = conversation s @ added"
proof (cases B inp s rule: main_cases)
  case aborted
  then show ?thesis by simp
next
  case (quiet s2)
  from init_service_metadata_keeps(1) [OF quiet(1)]
  have "conversation s2 = conversation s" by (simp add: conversation_def)
  then show ?thesis
    unfolding quiet(2) using assms by (simp add: conversation_init_messages)
next
  case (answered s2 q)
  from init_service_metadata_keeps(1) [OF answered(1)]
  have c: "conversation (init_messages (init_config inp s2)) = conversation s"
    using assms by (simp add: conversation_init_messages) (simp add: conversation_def)
  obtain ms where ms: "messages (init_messages (init_config inp s2)) = Some ms"
    using init_messages_present by blast
  from final_answer [OF ms, of B q] obtain rest where
    "final (answer B q (init_messages (init_config inp s2))) =
       (init_messages (init_config inp s2))\<lparr>messages := Some (ms @ \<lparr>role = ''user'', content = q\<rparr> # rest)\<rparr>"
    by blast
  then have "conversation (final (main B inp s)) = ms @ \<lparr>role = ''user'', content = q\<rparr> # rest"
    unfolding answered(6) by (simp add: conversation_def)
  moreover have "conversation s = ms"
    using c ms by (simp add: conversation_def)
  ultimately show ?thesis by simp
qed

lemma runs_append:
  assumes "\<forall>inp \<in> set inps. \<not> w_clear_conversation inp"
  shows "\<exists>added. conversation (runs B inps s) = conversation s @ added"
  using assms
proof (induction inps arbitrary: s)
  case Nil
  then show ?case by simp
next
  case (Cons inp inps)
  then obtain a where a: "conversation (final (main B inp s)) = conversation s @ a"
    using main_appends [of inp B s] by auto
  from Cons obtain b where
    "conversation (runs B inps (final (main B inp s))) = conversation (final (main B inp s)) @ b"
    by fastforce
  with a show ?case by simp
qed

text \<open>
  C7. Over any sequence of runs of \<^verbatim>\<open>main\<close> none of which has the Clear Chat button
  set, whatever the backends answer and whether or not a run ends in an exception, the
  Conversation after the runs is the Conversation before them with turns added at the end:
  its length has not decreased, and every turn that was there is at its position, with its
  role and content.
\<close>

theorem conversation_append_only:
  assumes "\<forall>inp \<in> set inps. \<not> w_clear_conversation inp"
  shows "(\<exists>added. conversation (runs B inps s) = conversation s @ added) \<and>
         length (conversation s) \<le> length (conversation (runs B inps s)) \<and>
         (\<forall>i < length (conversation s). conversation (runs B inps s) ! i = conversation s ! i)"
proof -
  from runs_append [OF assms] obtain added where
    "conversation (runs B inps s) = conversation s @ added" by blast
  then show ?thesis by (auto simp: nth_append)
qed

text \<open>A second question after the first exchange: four turns, the first two unchanged.\<close>

theorem conversation_append_only_witness:
  "\<not> w_clear_conversation ask_more \<and>
   conversation first_exchange =
     [\<lparr>role = ''user'', content = owasp_question\<rparr>,
      \<lparr>role = ''assistant'', content = ''It costs '' @ [backslash, dollar] @ ''5''\<rparr>] \<and>
   length (conversation (runs sample_backend [ask_more] first_exchange)) = 4 \<and>
   take 2 (conversation (runs sample_backend [ask_more] first_exchange)) =
     conversation first_exchange"
proof -
  have n: "\<forall>inp \<in> set [ask_more]. \<not> w_clear_conversation inp"
    by (simp add: sample_defs)
  have l: "length (conversation (runs sample_backend [ask_more] first_exchange)) = 4"
    by (simp add: first_exchange_value program_defs sample_defs conversation_def
          lower_CHUNK str_nat_small str_replace_char quote_def dollar_def backslash_def ret_def)
  have c: "conversation first_exchange =
     [\<lparr>role = ''user'', content = owasp_question\<rparr>,
      \<lparr>role = ''assistant'', content = ''It costs '' @ [backslash, dollar] @ ''5''\<rparr>]"
    by (simp add: first_exchange_value conversation_def)
  from conversation_append_only [OF n, of sample_backend first_exchange]
  obtain added where
    "conversation (runs sample_backend [ask_more] first_exchange) = conversation first_exchange @ added"
    by blast
  then have "take 2 (conversation (runs sample_backend [ask_more] first_exchange)) =
     conversation first_exchange"
    using c by simp
  then show ?thesis using n l c by simp
qed

section \<open>The Clear Chat button\<close>

text \<open>
  C6. A clear action is a run started by a click on the Clear Chat button: the button's
  value is \<open>True\<close> and the chat input has no submission. In a session of the program, after
  such a run that did not end in an exception, \<open>messages\<close> is the empty list, whatever it
  was before, and \<open>pinned_messages\<close> is the empty list. (\<^verbatim>\<open>init_messages\<close> empties
  \<open>messages\<close>; \<open>pinned_messages\<close> it only creates when absent, and nothing in the program
  ever adds to it, so it is empty in every state a session reaches.)
\<close>

theorem clear_resets:
  assumes "reachable B s" and "w_clear_conversation inp" and "chat_submission inp = None"
    and "raised (main B inp s) = None"
  shows "messages (final (main B inp s)) = Some [] \<and>
         pinned_messages (final (main B inp s)) = Some []"
proof (cases "init_service_metadata B (handle_uploaded_pdf inp s)")
  case (Inl e)
  then have "raised (main B inp s) = Some e"
    by (simp add: main_def)
  with assms(4) show ?thesis by simp
next
  case (Inr s2)
  with assms(3) have f: "final (main B inp s) = init_messages (init_config inp s2)"
    by (simp add: final_main)
  from reachable_invariant [OF assms(1)] init_service_metadata_keeps(2) [OF Inr]
  have "pinned_messages s2 = None \<or> pinned_messages s2 = Some []"
    by simp
  then show ?thesis
    unfolding f using assms(2) by auto
qed

text \<open>The sample session after its first exchange, then a click on Clear Chat.\<close>

theorem clear_resets_witness:
  "reachable sample_backend first_exchange \<and> w_clear_conversation clear_click \<and>
   chat_submission clear_click = None \<and>
   raised (main sample_backend clear_click first_exchange) = None \<and>
   length (conversation first_exchange) = 2 \<and>
   messages (final (main sample_backend clear_click first_exchange)) = Some [] \<and>
   pinned_messages (final (main sample_backend clear_click first_exchange)) = Some []"
proof -
  have r: "raised (main sample_backend clear_click first_exchange) = None"
    by (simp add: first_exchange_value program_defs sample_defs)
  have c: "w_clear_conversation clear_click" "chat_submission clear_click = None"
    by (simp_all add: sample_defs)
  have l: "length (conversation first_exchange) = 2"
    by (simp add: first_exchange_value conversation_def)
  show ?thesis
    using clear_resets [OF reachable_first_exchange c r] reachable_first_exchange c r l
    by simp
qed

section \<open>No search service, no chat input\<close>

text \<open>
  C8. When the discovered list of search services is empty (it is stored empty, or it is
  not yet stored and the backend lists no service), then in every state a session reaches
  the Conversation is empty, and a run of \<^verbatim>\<open>main\<close> from it, whatever the user typed
  in the chat input, appends no turn and makes no search and no completion call: the chat
  input is disabled.
\<close>

theorem no_service_no_turn:
  assumes "reachable B s"
    and "service_metadata s = Some [] \<or> (service_metadata s = None \<and> show_services B = Inr [])"
  shows "conversation s = [] \<and> conversation (final (main B inp s)) = [] \<and>
         effects (main B inp s) = []"
proof -
  from reachable_invariant [OF assms(1)] assms(2)
  have m: "messages s = None \<or> messages s = Some []" by auto
  obtain s2 where s2: "init_service_metadata B (handle_uploaded_pdf inp s) = Inr s2"
    and md: "service_metadata s2 = Some []"
    using assms(2) by (auto simp: init_service_metadata_def)
  from init_service_metadata_keeps(1) [OF s2] m
  have m2: "messages s2 = None \<or> messages s2 = Some []" by simp
  then have m3: "messages (init_messages (init_config inp s2)) = Some []" by auto
  have "main B inp s = \<lparr>final = init_messages (init_config inp s2), effects = [], raised = None\<rparr>"
    using s2 md m3 by (simp add: main_def Let_def chat_input_def summary_section_def)
  then show ?thesis using m m3 by (auto simp: conversation_def)
qed

text \<open>A new session on the backend without services, with a question typed.\<close>

theorem no_service_no_turn_witness:
  "reachable bare_backend new_session \<and> service_metadata new_session = None \<and>
   show_services bare_backend = Inr [] \<and> chat_submission ask_owasp = Some owasp_question \<and>
   conversation (final (main bare_backend ask_owasp new_session)) = [] \<and>
   effects (main bare_backend ask_owasp new_session) = [] \<and>
   service_metadata (final (main bare_backend ask_owasp new_session)) = Some []"
proof -
  have r: "reachable bare_backend new_session"
    by (rule reachable.start) (simp add: fresh_def new_session_def)
  have h: "service_metadata new_session = Some [] \<or>
           (service_metadata new_session = None \<and> show_services bare_backend = Inr [])"
    by (simp add: new_session_def bare_backend_def)
  have m: "service_metadata (final (main bare_backend ask_owasp new_session)) = Some []"
    by (simp add: program_defs sample_defs bare_backend_def)
  show ?thesis
    using no_service_no_turn [OF r h, of ask_owasp] r m
    by (simp add: new_session_def bare_backend_def ask_owasp_def sample_inputs_def)
qed

section \<open>The topic selectbox\<close>

lemma topic_get_chat_history [simp]:
  "get_chat_history (s\<lparr>selected_topic := t\<rparr>) = get_chat_history s"
  by (simp add: get_chat_history_def cong: option.case_cong)

lemma topic_find_search_column [simp]:
  "find_search_column (s\<lparr>selected_topic := t\<rparr>) = find_search_column s"
  by (simp add: find_search_column_def cong: option.case_cong)

lemma topic_query_cortex [simp]:
  "query_cortex B (s\<lparr>selected_topic := t\<rparr>) q cols flt = query_cortex B s q cols flt"
  by (simp add: query_cortex_def)

lemma topic_summarize_chat [simp]:
  "summarize_chat B (s\<lparr>selected_topic := t\<rparr>) h q = summarize_chat B s h q"
  by (simp add: summarize_chat_def)

lemma topic_build_prompt [simp]:
  "build_prompt B (s\<lparr>selected_topic := t\<rparr>) q = build_prompt B s q"
  by (simp add: build_prompt_def Let_def cong: if_cong)

lemma topic_generate_summary [simp]:
  "generate_summary B (s\<lparr>selected_topic := t\<rparr>) = generate_summary B s"
  by (simp add: generate_summary_def cong: option.case_cong)

lemma topic_append_message:
  "append_message m (s\<lparr>selected_topic := t\<rparr>) =
     (case append_message m s of Inl e \<Rightarrow> Inl e | Inr s' \<Rightarrow> Inr (s'\<lparr>selected_topic := t\<rparr>))"
  by (simp add: append_message_def split: option.splits)

lemma topic_answer:
  "answer B q (s\<lparr>selected_topic := t\<rparr>) =
     (answer B q s)\<lparr>final := (final (answer B q s))\<lparr>selected_topic := t\<rparr>\<rparr>"
  by (simp add: answer_def topic_append_message split: sum.splits prod.splits)

lemma topic_summary_section:
  "summary_section B (inp\<lparr>w_selected_topic := t\<rparr>) (r\<lparr>final := (final r)\<lparr>selected_topic := x\<rparr>\<rparr>) =
     (summary_section B inp r)\<lparr>final := (final (summary_section B inp r))\<lparr>selected_topic := x\<rparr>\<rparr>"
  by (simp add: summary_section_def split: option.splits sum.splits prod.splits)

lemma topic_handle_uploaded_pdf:
  "handle_uploaded_pdf (inp\<lparr>w_selected_topic := t\<rparr>) (s\<lparr>selected_topic := x\<rparr>) =
     (handle_uploaded_pdf inp s)\<lparr>selected_topic := x\<rparr>"
  by (simp add: handle_uploaded_pdf_def split: option.splits)

lemma topic_init_service_metadata:
  "init_service_metadata B (s\<lparr>selected_topic := x\<rparr>) =
     (case init_service_metadata B s of Inl e \<Rightarrow> Inl e | Inr s' \<Rightarrow> Inr (s'\<lparr>selected_topic := x\<rparr>))"
  by (simp add: init_service_metadata_def split: sum.splits)

lemma topic_init_config:
  "init_config (inp\<lparr>w_selected_topic := t\<rparr>) (s\<lparr>selected_topic := x\<rparr>) =
     (init_config inp s)\<lparr>selected_topic := t\<rparr>"
  by (simp add: init_config_def)

lemma topic_init_messages:
  "init_messages (s\<lparr>selected_topic := t\<rparr>) = (init_messages s)\<lparr>selected_topic := t\<rparr>"
  by (simp add: init_messages_def Let_def)

lemma topic_main:
  "main B (inp\<lparr>w_selected_topic := t\<rparr>) (s\<lparr>selected_topic := x\<rparr>) =
     (main B inp s)\<lparr>final := (final (main B inp s))
        \<lparr>selected_topic :=
           (case init_service_metadata B (handle_uploaded_pdf inp s) of Inl e \<Rightarrow> x | Inr s2 \<Rightarrow> t)\<rparr>\<rparr>"
proof (cases "init_service_metadata B (handle_uploaded_pdf inp s)")
  case (Inl e)
  then show ?thesis
    by (simp add: main_def topic_handle_uploaded_pdf topic_init_service_metadata)
next
  case (Inr s2)
  define s3 where "s3 = init_messages (init_config inp s2)"
  have pre: "init_messages (init_config (inp\<lparr>w_selected_topic := t\<rparr>) (s2\<lparr>selected_topic := x\<rparr>)) =
             s3\<lparr>selected_topic := t\<rparr>"
    by (simp add: s3_def topic_init_config topic_init_messages)
  show ?thesis
  proof (cases "service_metadata s3")
    case None
    with Inr pre show ?thesis
      by (simp add: main_def topic_handle_uploaded_pdf topic_init_service_metadata Let_def
            s3_def [symmetric])
  next
    case (Some metadata)
    define r0 where "r0 =
      (case chat_input (metadata = []) (chat_submission inp) of
         None \<Rightarrow> \<lparr>final = s3, effects = [], raised = None\<rparr>
       | Some question \<Rightarrow>
           if question = [] then \<lparr>final = s3, effects = [], raised = None\<rparr>
           else answer B question s3)"
    have r0': "(case chat_input (metadata = []) (chat_submission (inp\<lparr>w_selected_topic := t\<rparr>)) of
         None \<Rightarrow> \<lparr>final = s3\<lparr>selected_topic := t\<rparr>, effects = [], raised = None\<rparr>
       | Some question \<Rightarrow>
           if question = [] then \<lparr>final = s3\<lparr>selected_topic := t\<rparr>, effects = [], raised = None\<rparr>
           else answer B question (s3\<lparr>selected_topic := t\<rparr>)) =
       r0\<lparr>final := (final r0)\<lparr>selected_topic := t\<rparr>\<rparr>"
      by (simp add: r0_def topic_answer split: option.splits)
    have l: "main B (inp\<lparr>w_selected_topic := t\<rparr>) (s\<lparr>selected_topic := x\<rparr>) =
          summary_section B (inp\<lparr>w_selected_topic := t\<rparr>) (r0\<lparr>final := (final r0)\<lparr>selected_topic := t\<rparr>\<rparr>)"
      using Inr Some pre r0'
      by (simp add: main_def topic_handle_uploaded_pdf topic_init_service_metadata Let_def)
    have r: "main B inp s = summary_section B inp r0"
      using Inr Some by (simp add: main_def Let_def s3_def [symmetric] r0_def)
    show ?thesis
      unfolding l r using Inr by (simp add: topic_summary_section)
  qed
qed

lemma and_then_effects:
  assumes "list_all P (fst m)" and "\<And>x. list_all P (fst (f x))"
  shows "list_all P (fst (and_then m f))"
  using assms by (cases m; cases "snd m") auto

lemma unfiltered_query_cortex: "list_all unfiltered (fst (query_cortex B s q [] []))"
  by (auto simp: query_cortex_def Let_def unfiltered_def intro!: and_then_effects)

lemma unfiltered_complete: "list_all unfiltered (fst (complete B model p))"
  by (simp add: complete_def unfiltered_def)

lemma unfiltered_build_prompt: "list_all unfiltered (fst (build_prompt B s q))"
  by (auto simp: build_prompt_def Let_def summarize_chat_def ret_def
        intro!: and_then_effects unfiltered_query_cortex unfiltered_complete)

lemma unfiltered_answer: "list_all unfiltered (effects (answer B q s))"
proof -
  have "list_all unfiltered
          (fst (and_then (build_prompt B s1 q') (\<lambda>prompt. complete B (model_name s1) prompt)))"
    for s1 q'
    by (intro and_then_effects unfiltered_build_prompt unfiltered_complete)
  then show ?thesis
    by (auto simp: answer_def split: sum.splits prod.splits)
       (metis fst_conv)+
qed

lemma unfiltered_generate_summary: "list_all unfiltered (fst (generate_summary B s))"
  by (auto simp: generate_summary_def ret_def intro!: and_then_effects unfiltered_complete)

lemma unfiltered_summary_section:
  "list_all unfiltered (effects r) \<Longrightarrow> list_all unfiltered (effects (summary_section B inp r))"
  using unfiltered_generate_summary [of B "final r"]
  by (auto simp: summary_section_def split: option.splits sum.splits prod.splits)

lemma unfiltered_main: "list_all unfiltered (effects (main B inp s))"
  by (auto simp: main_def Let_def unfiltered_answer
        split: sum.splits option.splits intro!: unfiltered_summary_section)

text \<open>
  C9. Two runs of \<^verbatim>\<open>main\<close> on the same backend that differ only in the topic (the
  value of the topic selectbox, and the value stored under \<open>selected_topic\<close> before the
  run) have the same effects in the same order (the same search calls, the same debug
  display of the retrieved context, the same prompts sent for completion), end in the
  same way, and leave the same session state but for \<open>selected_topic\<close>; in particular the
  same Conversation. Every search call of a run carries the empty filter.
\<close>

theorem topic_is_decorative:
  "effects (main B (inp\<lparr>w_selected_topic := t\<rparr>) (s\<lparr>selected_topic := x\<rparr>)) =
     effects (main B inp s) \<and>
   raised (main B (inp\<lparr>w_selected_topic := t\<rparr>) (s\<lparr>selected_topic := x\<rparr>)) =
     raised (main B inp s) \<and>
   messages (final (main B (inp\<lparr>w_selected_topic := t\<rparr>) (s\<lparr>selected_topic := x\<rparr>))) =
     messages (final (main B inp s)) \<and>
   (final (main B (inp\<lparr>w_selected_topic := t\<rparr>) (s\<lparr>selected_topic := x\<rparr>)))\<lparr>selected_topic := z\<rparr> =
     (final (main B inp s))\<lparr>selected_topic := z\<rparr> \<and>
   list_all unfiltered (effects (main B inp s))"
  by (simp add: topic_main unfiltered_main)

section \<open>What build_prompt and answer do\<close>

lemma fst_and_then:
  "fst (and_then m f) = fst m @ (case snd m of Inl e \<Rightarrow> [] | Inr x \<Rightarrow> fst (f x))"
  by (cases m; cases "snd m") auto

lemma snd_and_then:
  "snd (and_then m f) = (case snd m of Inl e \<Rightarrow> Inl e | Inr x \<Rightarrow> snd (f x))"
  by (cases m; cases "snd m") auto

lemma build_prompt_result:
  assumes "build_prompt B s question = (log, Inr prompt)"
  shows "\<exists>window summary ctx.
           (if use_chat_history s then get_chat_history s = Inr window else window = []) \<and>
           (if window = [] then summary = question
            else snd (summarize_chat B s
                        (join nl (map content (filter (\<lambda>msg. role msg = ''user'') window)))
                        question) = Inr summary) \<and>
           snd (query_cortex B s summary [] []) = Inr ctx \<and>
           prompt =
             final_prompt (join nl (map content (filter (\<lambda>msg. role msg = ''user'') window)))
               ctx question"
proof -
  obtain window where
    w: "(if use_chat_history s then ([], get_chat_history s) else ret []) = ([], Inr window)"
    using assms
    by (cases "get_chat_history s") (auto simp: build_prompt_def ret_def split: if_splits)
  let ?text = "join nl (map content (filter (\<lambda>msg. role msg = ''user'') window))"
  obtain l1 summary where
    sm: "(if window \<noteq> [] then summarize_chat B s ?text question else ret question) =
           (l1, Inr summary)"
    using assms w
    by (cases "if window \<noteq> [] then summarize_chat B s ?text question else ret question";
        cases "snd (if window \<noteq> [] then summarize_chat B s ?text question else ret question)")
       (auto simp: build_prompt_def user_text_def Let_def)
  obtain l2 ctx where c: "query_cortex B s summary [] [] = (l2, Inr ctx)"
    using assms w sm
    by (cases "query_cortex B s summary [] []"; cases "snd (query_cortex B s summary [] [])")
       (auto simp: build_prompt_def user_text_def Let_def)
  have p: "prompt = final_prompt ?text ctx question"
    using assms w sm c by (auto simp: build_prompt_def user_text_def Let_def ret_def)
  have h: "if use_chat_history s then get_chat_history s = Inr window else window = []"
    using w by (auto simp: ret_def split: if_splits)
  have q: "if window = [] then summary = question
            else snd (summarize_chat B s ?text question) = Inr summary"
    using sm by (auto simp: ret_def split: if_splits)
  have r: "snd (query_cortex B s summary [] []) = Inr ctx"
    using c by simp
  from h q r p show ?thesis by blast
qed

lemma query_cortex_first_effect:
  "\<exists>more. fst (query_cortex B s q cols flt) =
     Searched \<lparr>svc = selected_cortex_search_service s, query = q, columns = cols,
                filter_clause = flt, limit = num_retrieved_chunks s\<rparr> # more"
  by (simp add: query_cortex_def Let_def fst_and_then)

lemma build_prompt_without_window:
  assumes "\<not> use_chat_history s \<or> get_chat_history s = Inr []"
  shows "build_prompt B s q =
           and_then (query_cortex B s q [] []) (\<lambda>c. ret (final_prompt [] c q))"
  using assms by (auto simp: build_prompt_def user_text_def ret_def)

lemma answer_exact:
  assumes "messages s = Some ms"
  shows "answer B q s =
     \<lparr>final = s\<lparr>messages := Some (ms @ \<lparr>role = ''user'', content = q\<rparr> #
          (case snd (and_then
                  (build_prompt B (s\<lparr>messages := Some (ms @ [\<lparr>role = ''user'', content = q\<rparr>])\<rparr>)
                     (filter (\<lambda>c. c \<noteq> quote) q))
                  (complete B (model_name s))) of
             Inl e \<Rightarrow> []
           | Inr reply \<Rightarrow> [\<lparr>role = ''assistant'', content = reply\<rparr>]))\<rparr>,
      effects = fst (and_then
                  (build_prompt B (s\<lparr>messages := Some (ms @ [\<lparr>role = ''user'', content = q\<rparr>])\<rparr>)
                     (filter (\<lambda>c. c \<noteq> quote) q))
                  (complete B (model_name s))),
      raised = (case snd (and_then
                  (build_prompt B (s\<lparr>messages := Some (ms @ [\<lparr>role = ''user'', content = q\<rparr>])\<rparr>)
                     (filter (\<lambda>c. c \<noteq> quote) q))
                  (complete B (model_name s))) of
                  Inl e \<Rightarrow> Some e
                | Inr reply \<Rightarrow> None)\<rparr>"
  using assms
  by (auto simp: answer_def append_message_def str_replace_delete split: sum.splits prod.splits)

lemma summary_section_effects:
  "\<exists>more. effects (summary_section B inp r) = effects r @ more \<and>
          (raised r \<noteq> None \<or> \<not> summary_clicked inp \<longrightarrow> more = [])"
  by (auto simp: summary_section_def split: option.splits sum.splits prod.splits)

lemma sample_prompts_written_out:
  "final_prompt [] sample_context ''Whats OWASP?'' = owasp_answer_prompt"
  "final_prompt ''Why'' sample_context ''How'' = how_answer_prompt"
  by (simp_all add: final_prompt_def sample_context_def owasp_answer_prompt_def
        how_answer_prompt_def)

section \<open>The sections of the prompt\<close>

text \<open>
  C2, as the code has it. A prompt returned by \<^verbatim>\<open>build_prompt\<close> is the instruction
  template filled with: in its \<open>chat_history\<close> section the contents of the user-role turns
  of the history window only, joined by line feeds (the window is empty when chat history
  is off); in its \<open>context\<close> section the context retrieved for the retrieval query, which
  is the question itself when the window is empty and its rewrite by
  \<^verbatim>\<open>summarize_chat\<close> otherwise; in its \<open>question\<close> section the question as it was passed,
  not rewritten.
\<close>

theorem build_prompt_sections:
  assumes "build_prompt B s question = (log, Inr prompt)"
  shows "\<exists>window summary context.
           (if use_chat_history s then get_chat_history s = Inr window else window = []) \<and>
           (if window = [] then summary = question
            else snd (summarize_chat B s
                        (join nl (map content (filter (\<lambda>msg. role msg = ''user'') window)))
                        question) = Inr summary) \<and>
           snd (query_cortex B s summary [] []) = Inr context \<and>
           prompt =
             nl @ ''    [INST]'' @ nl @
             ''    You are SS IntelliBot, a helpful AI assistant with access to PDF-based knowledge.'' @ nl @
             ''    Use the provided <context> and <chat_history> to answer user questions.'' @ nl @
             ''    Respond clearly, briefly, and helpfully.'' @ nl @
             nl @
             ''    <chat_history>'' @
               join nl (map content (filter (\<lambda>msg. role msg = ''user'') window)) @
               ''</chat_history>'' @ nl @
             ''    <context>'' @ context @ ''</context>'' @ nl @
             ''    <question>'' @ question @ ''</question>'' @ nl @
             ''    [/INST]'' @ nl @
             ''    Answer:'' @ nl @
             ''    ''"
  using build_prompt_result [OF assms] unfolding final_prompt_def .

text \<open>
  The sample session with its third question pending: the window holds a user turn and an
  assistant turn, and the \<open>chat_history\<close> section holds the user turn's text.
\<close>

theorem build_prompt_sections_witness:
  "build_prompt sample_backend sample_session ''How'' =
     ([Completed ''mistral-large2'' (summarize_prompt ''Why'' ''How''),
       Searched \<lparr>svc = Some ''DOCS'', query = ''It costs '' @ [backslash, dollar] @ ''5'',
                  columns = [], filter_clause = [], limit = 5\<rparr>],
      Inr how_answer_prompt) \<and>
   use_chat_history sample_session \<and>
   get_chat_history sample_session =
     Inr [\<lparr>role = ''user'', content = ''Why''\<rparr>, \<lparr>role = ''assistant'', content = ''QQQ''\<rparr>] \<and>
   join nl (map content (filter (\<lambda>msg. role msg = ''user'')
     [\<lparr>role = ''user'', content = ''Why''\<rparr>, \<lparr>role = ''assistant'', content = ''QQQ''\<rparr>])) = ''Why''"
  using build_prompt_sections [OF sample_prompt] sample_prompt sample_window
  by (simp add: sample_fields sample_prompts_written_out)

text \<open>
  C2 as stated fails there: the assistant turn \<open>QQQ\<close> is in the window, and the prompt,
  whose \<open>chat_history\<close> section is \<open>Why\<close>, has no \<open>Q\<close> in it.
\<close>

theorem prompt_history_counterexample:
  "get_chat_history sample_session =
     Inr [\<lparr>role = ''user'', content = ''Why''\<rparr>, \<lparr>role = ''assistant'', content = ''QQQ''\<rparr>] \<and>
   snd (build_prompt sample_backend sample_session ''How'') = Inr how_answer_prompt \<and>
   CHR ''Q'' \<notin> set how_answer_prompt"
proof -
  have "CHR ''Q'' \<notin> set how_answer_prompt"
    by (simp add: how_answer_prompt_def nl_def)
  then show ?thesis
    by (simp add: sample_window sample_prompt sample_prompts_written_out)
qed

section \<open>The stored question\<close>

text \<open>
  C1, as the code has it. Let a non-empty question be submitted with at least one search
  service discovered, and let \<open>stripped\<close> be the question with every single quote removed.
  \<^item> The user turn appended to the Conversation holds the question as it was submitted,
    single quotes included. After it comes the assistant's reply when the run gets one,
    and nothing otherwise.
  \<^item> \<^verbatim>\<open>build_prompt\<close> is called on \<open>stripped\<close>, in the session with the user turn
    appended: the effects of the run are the effects of that call, then the completion
    call on the prompt it returned, then what the summary button adds. The reply is the
    completion of that prompt.
  \<^item> The \<open>question\<close> section of that prompt holds \<open>stripped\<close>, which has no single quote.
  \<^item> When the history window is empty or chat history is off, the retrieval query is
    \<open>stripped\<close>. (With a window, the retrieval query is the rewrite the completion
    backend gives, whatever it holds.)
\<close>

theorem user_turn_keeps_quotes:
  assumes "init_service_metadata B (handle_uploaded_pdf inp s) = Inr s2"
    and "service_metadata s2 = Some metadata" and "metadata \<noteq> []"
    and "chat_submission inp = Some question" and "question \<noteq> []"
    and "messages (init_messages (init_config inp s2)) = Some ms"
    and "s4 = (init_messages (init_config inp s2))
                \<lparr>messages := Some (ms @ [\<lparr>role = ''user'', content = question\<rparr>])\<rparr>"
    and "stripped = filter (\<lambda>c. c \<noteq> quote) question"
  shows "messages (final (main B inp s)) =
           Some (ms @ \<lparr>role = ''user'', content = question\<rparr> #
                 (case snd (and_then (build_prompt B s4 stripped) (complete B (model_name s4))) of
                    Inl e \<Rightarrow> []
                  | Inr reply \<Rightarrow> [\<lparr>role = ''assistant'', content = reply\<rparr>])) \<and>
         (\<exists>more. effects (main B inp s) =
                   fst (build_prompt B s4 stripped) @
                   (case snd (build_prompt B s4 stripped) of
                      Inl e \<Rightarrow> []
                    | Inr prompt \<Rightarrow> Completed (model_name s4) prompt # more) \<and>
                 (\<not> summary_clicked inp \<longrightarrow> more = [])) \<and>
         (\<forall>prompt. snd (build_prompt B s4 stripped) = Inr prompt \<longrightarrow>
            (\<exists>before. prompt =
               before @ ''    <question>'' @ stripped @ ''</question>'' @ nl @
               ''    [/INST]'' @ nl @
               ''    Answer:'' @ nl @
               ''    '')) \<and>
         quote \<notin> set stripped \<and>
         (\<not> use_chat_history s4 \<or> get_chat_history s4 = Inr [] \<longrightarrow>
            (\<exists>more. effects (main B inp s) =
               Searched \<lparr>svc = selected_cortex_search_service s4, query = stripped,
                          columns = [], filter_clause = [],
                          limit = num_retrieved_chunks s4\<rparr> # more))"
proof -
  define s3 where "s3 = init_messages (init_config inp s2)"
  define bp where "bp = build_prompt B s4 stripped"
  have m: "main B inp s = summary_section B inp (answer B question s3)"
    using assms(1-5) by (simp add: main_def Let_def chat_input_def s3_def)
  have ms: "messages s3 = Some ms"
    using assms(6) by (simp add: s3_def)
  have s4: "s4 = s3\<lparr>messages := Some (ms @ [\<lparr>role = ''user'', content = question\<rparr>])\<rparr>"
    using assms(7) by (simp add: s3_def)
  have model: "model_name s4 = model_name s3"
    by (simp add: s4)
  note a = answer_exact [OF ms, of B question, folded s4 assms(8), folded model bp_def]
  have stored: "messages (final (main B inp s)) =
           Some (ms @ \<lparr>role = ''user'', content = question\<rparr> #
                 (case snd (and_then bp (complete B (model_name s4))) of
                    Inl e \<Rightarrow> []
                  | Inr reply \<Rightarrow> [\<lparr>role = ''assistant'', content = reply\<rparr>]))"
    unfolding m by (simp add: a)
  have eff_answer: "effects (answer B question s3) =
      fst bp @ (case snd bp of Inl e \<Rightarrow> [] | Inr prompt \<Rightarrow> [Completed (model_name s4) prompt])"
    by (simp add: a fst_and_then complete_def cong: sum.case_cong)
  have raised_answer: "snd bp = Inl e \<Longrightarrow> raised (answer B question s3) \<noteq> None" for e
    by (simp add: a snd_and_then)
  obtain more where more: "effects (main B inp s) = effects (answer B question s3) @ more"
    "raised (answer B question s3) \<noteq> None \<or> \<not> summary_clicked inp \<longrightarrow> more = []"
    unfolding m using summary_section_effects by blast
  have eff: "effects (main B inp s) =
               fst bp @ (case snd bp of Inl e \<Rightarrow> []
                         | Inr prompt \<Rightarrow> Completed (model_name s4) prompt # more) \<and>
             (\<not> summary_clicked inp \<longrightarrow> more = [])"
    using more raised_answer by (cases "snd bp") (auto simp: eff_answer)
  have qsec: "\<exists>before. prompt =
               before @ ''    <question>'' @ stripped @ ''</question>'' @ nl @
               ''    [/INST]'' @ nl @
               ''    Answer:'' @ nl @
               ''    ''" if "snd bp = Inr prompt" for prompt
  proof -
    from that have "build_prompt B s4 stripped = (fst bp, Inr prompt)"
      by (simp add: bp_def prod_eq_iff)
    from build_prompt_result [OF this] obtain chat_text ctx where
      "prompt = final_prompt chat_text ctx stripped"
      by blast
    then have "prompt =
        (nl @ ''    [INST]'' @ nl @
         ''    You are SS IntelliBot, a helpful AI assistant with access to PDF-based knowledge.'' @ nl @
         ''    Use the provided <context> and <chat_history> to answer user questions.'' @ nl @
         ''    Respond clearly, briefly, and helpfully.'' @ nl @
         nl @
         ''    <chat_history>'' @ chat_text @ ''</chat_history>'' @ nl @
         ''    <context>'' @ ctx @ ''</context>'' @ nl) @
        ''    <question>'' @ stripped @ ''</question>'' @ nl @
        ''    [/INST]'' @ nl @
        ''    Answer:'' @ nl @
        ''    ''"
      by (simp add: final_prompt_def)
    then show ?thesis by blast
  qed
  have noquote: "quote \<notin> set stripped"
    by (simp add: assms(8))
  have first: "\<exists>more. effects (main B inp s) =
               Searched \<lparr>svc = selected_cortex_search_service s4, query = stripped,
                          columns = [], filter_clause = [],
                          limit = num_retrieved_chunks s4\<rparr> # more"
    if "\<not> use_chat_history s4 \<or> get_chat_history s4 = Inr []"
  proof -
    from build_prompt_without_window [OF that, of B stripped]
    have "fst bp = fst (query_cortex B s4 stripped [] []) @
            (case snd (query_cortex B s4 stripped [] []) of Inl e \<Rightarrow> [] | Inr c \<Rightarrow> [])"
      by (simp add: bp_def fst_and_then ret_def cong: sum.case_cong)
    with query_cortex_first_effect [of B s4 stripped "[]" "[]"] obtain rest where
      "fst bp = Searched \<lparr>svc = selected_cortex_search_service s4, query = stripped,
                          columns = [], filter_clause = [],
                          limit = num_retrieved_chunks s4\<rparr> # rest"
      by auto
    with eff show ?thesis by simp
  qed
  from stored eff qsec noquote first show ?thesis
    unfolding bp_def by blast
qed

text \<open>
  The question of the scenario, asked in a new session: the turn stored has the single
  quote, the retrieval query and the \<open>question\<close> section of the answer prompt have not.
\<close>

theorem user_turn_keeps_quotes_witness:
  "init_service_metadata sample_backend (handle_uploaded_pdf ask_owasp new_session) =
     Inr (new_session\<lparr>service_metadata := Some [\<lparr>name = ''DOCS'', search_column = ''CHUNK''\<rparr>]\<rparr>) \<and>
   chat_submission ask_owasp = Some owasp_question \<and> owasp_question \<noteq> [] \<and>
   filter (\<lambda>c. c \<noteq> quote) owasp_question = ''Whats OWASP?'' \<and>
   messages (final (main sample_backend ask_owasp new_session)) =
     Some [\<lparr>role = ''user'', content = owasp_question\<rparr>,
           \<lparr>role = ''assistant'', content = ''It costs '' @ [backslash, dollar] @ ''5''\<rparr>] \<and>
   effects (main sample_backend ask_owasp new_session) =
     [Searched \<lparr>svc = Some ''DOCS'', query = ''Whats OWASP?'', columns = [],
                 filter_clause = [], limit = 5\<rparr>,
      Completed ''mistral-large2'' owasp_answer_prompt] \<and>
   quote \<notin> set ''Whats OWASP?''"
proof -
  have h1: "init_service_metadata sample_backend (handle_uploaded_pdf ask_owasp new_session) =
     Inr (new_session\<lparr>service_metadata := Some [\<lparr>name = ''DOCS'', search_column = ''CHUNK''\<rparr>]\<rparr>)"
    by (simp add: init_service_metadata_def handle_uploaded_pdf_def sample_defs)
  have h2: "service_metadata (new_session\<lparr>service_metadata := Some [\<lparr>name = ''DOCS'', search_column = ''CHUNK''\<rparr>]\<rparr>) =
      Some [\<lparr>name = ''DOCS'', search_column = ''CHUNK''\<rparr>]"
    by simp
  have h3: "[\<lparr>name = ''DOCS'', search_column = ''CHUNK''\<rparr>] \<noteq> []" by simp
  have h4: "chat_submission ask_owasp = Some owasp_question"
    by (simp add: sample_defs)
  have h5: "owasp_question \<noteq> []" by (simp add: owasp_question_def)
  have h6: "messages (init_messages (init_config ask_owasp
      (new_session\<lparr>service_metadata := Some [\<lparr>name = ''DOCS'', search_column = ''CHUNK''\<rparr>]\<rparr>))) = Some []"
    by (simp add: new_session_def)
  have f: "filter (\<lambda>c. c \<noteq> quote) owasp_question = ''Whats OWASP?''"
    by (simp add: owasp_question_def quote_def)
  have q: "quote \<notin> set ''Whats OWASP?''"
    using user_turn_keeps_quotes [OF h1 h2 h3 h4 h5 h6 refl refl] unfolding f by blast
  have r: "messages (final (main sample_backend ask_owasp new_session)) =
     Some [\<lparr>role = ''user'', content = owasp_question\<rparr>,
           \<lparr>role = ''assistant'', content = ''It costs '' @ [backslash, dollar] @ ''5''\<rparr>]"
    "effects (main sample_backend ask_owasp new_session) =
     [Searched \<lparr>svc = Some ''DOCS'', query = ''Whats OWASP?'', columns = [],
                 filter_clause = [], limit = 5\<rparr>,
      Completed ''mistral-large2'' owasp_answer_prompt]"
    by (simp_all add: first_run final_prompt_def owasp_answer_prompt_def)
  from h1 h4 h5 f r q show ?thesis by blast
qed

text \<open>
  C1 as stated fails there: the stored user turn is \<^verbatim>\<open>What's OWASP?\<close>, with its single
  quote.
\<close>

theorem user_turn_stripped_counterexample:
  "chat_submission ask_owasp = Some owasp_question \<and>
   messages (final (main sample_backend ask_owasp new_session)) =
     Some [\<lparr>role = ''user'', content = owasp_question\<rparr>,
           \<lparr>role = ''assistant'', content = ''It costs '' @ [backslash, dollar] @ ''5''\<rparr>] \<and>
   quote \<in> set owasp_question \<and> owasp_question \<noteq> ''Whats OWASP?''"
proof -
  have a: "chat_submission ask_owasp = Some owasp_question"
    by (simp add: ask_owasp_def sample_inputs_def)
  have b: "messages (final (main sample_backend ask_owasp new_session)) =
     Some [\<lparr>role = ''user'', content = owasp_question\<rparr>,
           \<lparr>role = ''assistant'', content = ''It costs '' @ [backslash, dollar] @ ''5''\<rparr>]"
    by (simp add: first_run)
  have c: "quote \<in> set owasp_question" "owasp_question \<noteq> ''Whats OWASP?''"
    by (simp_all add: owasp_question_def quote_def)
  from a b c show ?thesis by blast
qed

end
